theory Spec2Isabelle
  imports Main "HOL-Library.Sublist"
begin

section \<open>The HTTP server of the GitHub MCP server (src/http-server.ts)\<close>

text \<open>
  The model follows \<^verbatim>\<open>src/http-server.ts\<close>. Strings are \<^typ>\<open>string\<close>; a value of
  TypeScript type \<^verbatim>\<open>string | undefined\<close> is a \<^typ>\<open>string option\<close> (\<open>None\<close> is
  \<^verbatim>\<open>undefined\<close>). The objects \<^verbatim>\<open>req.query\<close> and \<^verbatim>\<open>req.headers\<close> are maps from names
  to strings, as the source's casts \<^verbatim>\<open>as string\<close> read them. The counters of type
  \<^verbatim>\<open>number\<close> only ever count up from 0 by 1 and are natural numbers. The objects of type
  \<^verbatim>\<open>Record<string, number>\<close> are plain objects: the model holds their own properties as a
  map from keys to values, and reads through to \<^verbatim>\<open>Object.prototype\<close> for a key that is not
  an own property, as the source does. What the source reads from
  outside (the clock, the outcome of the SDK's \<^verbatim>\<open>connect\<close> and \<^verbatim>\<open>handleRequest\<close>) is an
  argument of the model.
\<close>

subsection \<open>JavaScript operators on strings\<close>

text \<open>Truthiness of a \<^verbatim>\<open>string | undefined\<close>: defined and not the empty string.\<close>

definition truthy :: "string option \<Rightarrow> bool" where
  "truthy v = (case v of None \<Rightarrow> False | Some s \<Rightarrow> s \<noteq> [])"

text \<open>\<^verbatim>\<open>v || d\<close> where \<open>d\<close> is a string: \<open>v\<close> when it is truthy, \<open>d\<close> otherwise.\<close>

definition js_or :: "string option \<Rightarrow> string \<Rightarrow> string" where
  "js_or v d = (case v of None \<Rightarrow> d | Some s \<Rightarrow> if s = [] then d else s)"

text \<open>\<^verbatim>\<open>s.split(c)[0]\<close>: the part of \<open>s\<close> before the first \<open>c\<close>, all of \<open>s\<close> when there
  is none.\<close>

definition split_first :: "char \<Rightarrow> string \<Rightarrow> string" where
  "split_first c s = takeWhile (\<lambda>x. x \<noteq> c) s"

text \<open>\<^verbatim>\<open>s.trim()\<close> on a header value (Latin-1): tab, line feed, vertical tab, form feed,
  carriage return, space and no-break space are removed at both ends.\<close>

definition isSpace :: "char \<Rightarrow> bool" where
  "isSpace c = (c \<in> set [CHR 0x09, CHR 0x0A, CHR 0x0B, CHR 0x0C, CHR 0x0D, CHR 0x20, CHR 0xA0])"

definition trim :: "string \<Rightarrow> string" where
  "trim s = rev (dropWhile isSpace (rev (dropWhile isSpace s)))"

subsection \<open>Configuration (line 28)\<close>

text \<open>\<^verbatim>\<open>const GITHUB_TOKEN = process.env.GITHUB_PERSONAL_ACCESS_TOKEN || ''\<close>; the argument
  is the environment variable.\<close>

definition GITHUB_TOKEN :: "string option \<Rightarrow> string" where
  "GITHUB_TOKEN env = js_or env []"

subsection \<open>Requests\<close>

text \<open>The parsed JSON body, as far as the handler reads it: \<^verbatim>\<open>req.body?.method\<close> and
  \<^verbatim>\<open>req.body?.params?.name\<close>, the latter of the type \<^verbatim>\<open>string\<close> that \<^verbatim>\<open>trackToolCall\<close>
  declares for it.\<close>

record rpc_params =
  params_name :: "string option"

record rpc_body =
  body_method :: "string option"
  body_params :: "rpc_params option"

record request =
  http_method :: string
  query :: "string \<rightharpoonup> string"
  headers :: "string \<rightharpoonup> string"
  remoteAddress :: "string option"
  body :: "rpc_body option"

subsection \<open>Analytics (lines 31-100)\<close>

record tool_call =
  tool :: string
  timestamp :: string
  clientIp :: string

text \<open>
  The counter objects start as \<^verbatim>\<open>{}\<close> (lines 48-54), so they inherit the members of
  \<^verbatim>\<open>Object.prototype\<close>, and line 80 and its like can leave a string where the type says
  \<^verbatim>\<open>number\<close>. A property value is therefore a number or a string.
\<close>

datatype counter = Count nat | Text string

record Analytics =
  serverStartTime :: string
  totalRequests :: nat
  totalToolCalls :: nat
  requestsByMethod :: "string \<rightharpoonup> counter"
  requestsByEndpoint :: "string \<rightharpoonup> counter"
  toolCalls :: "string \<rightharpoonup> counter"
  recentToolCalls :: "tool_call list"
  clientsByIp :: "string \<rightharpoonup> counter"
  clientsByUserAgent :: "string \<rightharpoonup> counter"
  hourlyRequests :: "string \<rightharpoonup> counter"

text \<open>The constant \<^verbatim>\<open>analytics\<close> at start-up; the argument is the clock reading.\<close>

definition analytics0 :: "string \<Rightarrow> Analytics" where
  "analytics0 start =
     \<lparr>serverStartTime = start, totalRequests = 0, totalToolCalls = 0,
      requestsByMethod = Map.empty, requestsByEndpoint = Map.empty, toolCalls = Map.empty,
      recentToolCalls = [], clientsByIp = Map.empty, clientsByUserAgent = Map.empty,
      hourlyRequests = Map.empty\<rparr>"

text \<open>
  The string that \<^verbatim>\<open>+\<close> makes of what a plain object inherits from \<^verbatim>\<open>Object.prototype\<close>
  under a key: \<^verbatim>\<open>__proto__\<close> reads the prototype itself, \<^verbatim>\<open>constructor\<close> the function
  \<^verbatim>\<open>Object\<close>, each other member the native function of its own name; any other key
  reads \<^verbatim>\<open>undefined\<close> (\<open>None\<close>).
\<close>

definition inherited_text :: "string \<Rightarrow> string option" where
  "inherited_text k =
     (if k = ''__proto__'' then Some ''[object Object]''
      else if k = ''constructor'' then Some ''function Object() { [native code] }''
      else if k \<in> set [''__defineGetter__'', ''__defineSetter__'', ''hasOwnProperty'',
                       ''__lookupGetter__'', ''__lookupSetter__'', ''isPrototypeOf'',
                       ''propertyIsEnumerable'', ''toString'', ''valueOf'', ''toLocaleString'']
      then Some (''function '' @ k @ ''() { [native code] }'')
      else None)"

text \<open>
  \<^verbatim>\<open>(m[k] || 0) + 1\<close>: an own property is read first. A number goes up by one; a non-empty
  string, own or made of an inherited member, is truthy and \<^verbatim>\<open>+ 1\<close> appends \<^verbatim>\<open>1\<close> to it;
  the empty string and \<^verbatim>\<open>undefined\<close> give \<^verbatim>\<open>0 + 1\<close>.
\<close>

definition or_zero_plus_one :: "(string \<rightharpoonup> counter) \<Rightarrow> string \<Rightarrow> counter" where
  "or_zero_plus_one m k =
     (case m k of
        Some (Count c) \<Rightarrow> Count (c + 1)
      | Some (Text t) \<Rightarrow> if t = [] then Count 1 else Text (t @ ''1'')
      | None \<Rightarrow>
          (case inherited_text k of
             Some t \<Rightarrow> Text (t @ ''1'')
           | None \<Rightarrow> Count 1))"

text \<open>
  \<^verbatim>\<open>m[k] = (m[k] || 0) + 1\<close>: the assignment sets the own property \<open>k\<close>, except that
  on an object without an own \<^verbatim>\<open>__proto__\<close> it calls the inherited setter of
  \<^verbatim>\<open>__proto__\<close>, which ignores a value that is not an object and stores nothing.
\<close>

definition incr :: "(string \<rightharpoonup> counter) \<Rightarrow> string \<Rightarrow> (string \<rightharpoonup> counter)" where
  "incr m k =
     (if k = ''__proto__'' \<and> m k = None then m
      else m(k \<mapsto> or_zero_plus_one m k))"

definition getClientIp :: "request \<Rightarrow> string" where
  "getClientIp req =
     js_or (case headers req ''x-forwarded-for'' of
              None \<Rightarrow> None
            | Some s \<Rightarrow> Some (trim (split_first CHR '','' s)))
       (js_or (remoteAddress req) ''unknown'')"

text \<open>Lines 78-79: \<^verbatim>\<open>userAgent.split('/')[0] || userAgent.slice(0, 50)\<close>.\<close>

definition shortUserAgent :: "string \<Rightarrow> string" where
  "shortUserAgent userAgent =
     (let first = split_first CHR ''/'' userAgent
      in if first = [] then take 50 userAgent else first)"

definition userAgentKey :: "request \<Rightarrow> string" where
  "userAgentKey req = shortUserAgent (js_or (headers req ''user-agent'') ''unknown'')"

text \<open>\<open>now\<close> is \<^verbatim>\<open>new Date().toISOString()\<close>.\<close>

definition trackRequest :: "request \<Rightarrow> string \<Rightarrow> string \<Rightarrow> Analytics \<Rightarrow> Analytics" where
  "trackRequest req endpoint now a =
     a\<lparr>totalRequests := totalRequests a + 1,
       requestsByMethod := incr (requestsByMethod a) (http_method req),
       requestsByEndpoint := incr (requestsByEndpoint a) endpoint,
       clientsByIp := incr (clientsByIp a) (getClientIp req),
       clientsByUserAgent := incr (clientsByUserAgent a) (userAgentKey req),
       hourlyRequests := incr (hourlyRequests a) (take 13 now @ '':00'')\<rparr>"

definition trackToolCall :: "string \<Rightarrow> string \<Rightarrow> string \<Rightarrow> Analytics \<Rightarrow> Analytics" where
  "trackToolCall toolName ip now a =
     (let unshifted = \<lparr>tool = toolName, timestamp = now, clientIp = ip\<rparr> # recentToolCalls a
      in a\<lparr>totalToolCalls := totalToolCalls a + 1,
           toolCalls := incr (toolCalls a) toolName,
           recentToolCalls := (if length unshifted > 100 then butlast unshifted else unshifted)\<rparr>)"

text \<open>A sequence of calls of the two recorders, from any of the endpoints.\<close>

datatype telemetry_op =
  RecordRequest request string string
| RecordToolCall string string string

fun record_op :: "telemetry_op \<Rightarrow> Analytics \<Rightarrow> Analytics" where
  "record_op (RecordRequest req endpoint now) a = trackRequest req endpoint now a"
| "record_op (RecordToolCall toolName ip now) a = trackToolCall toolName ip now a"

fun record_all :: "telemetry_op list \<Rightarrow> Analytics \<Rightarrow> Analytics" where
  "record_all [] a = a"
| "record_all (x # xs) a = record_all xs (record_op x a)"

text \<open>The entries that a sequence of operations records, oldest first.\<close>

fun recorded_calls :: "telemetry_op list \<Rightarrow> tool_call list" where
  "recorded_calls [] = []"
| "recorded_calls (RecordRequest req endpoint now # xs) = recorded_calls xs"
| "recorded_calls (RecordToolCall toolName ip now # xs) =
     \<lparr>tool = toolName, timestamp = now, clientIp = ip\<rparr> # recorded_calls xs"

subsection \<open>Sessions (lines 117-154 and 487)\<close>

text \<open>
  A transport is an object made by \<^verbatim>\<open>new StreamableHTTPServerTransport\<close>; its identity is
  its index in the store \<open>sessions\<close> of all transports made so far. The entry of a
  transport holds what \<^verbatim>\<open>createMcpServer(token)\<close> made for it in the same run of the
  handler: the token given to \<^verbatim>\<open>new Octokit({ auth: token })\<close>, over which every tool of
  that server is closed, and whether \<^verbatim>\<open>connect\<close> has bound the server to the transport.
\<close>

record session =
  octokit_auth :: string
  connected :: bool

record server =
  analytics :: Analytics
  transports :: "string \<rightharpoonup> nat"
  sessions :: "session list"

definition server0 :: "string \<Rightarrow> server" where
  "server0 start = \<lparr>analytics = analytics0 start, transports = Map.empty, sessions = []\<rparr>"

subsection \<open>The handler of /mcp (lines 490-542)\<close>

text \<open>What one run of the handler reads from outside.\<close>

record world =
  clock_request :: string   \<comment> \<open>the clock in \<^verbatim>\<open>trackRequest\<close>\<close>
  clock_tool :: string   \<comment> \<open>the clock in \<^verbatim>\<open>trackToolCall\<close>\<close>
  connect_throws :: bool   \<comment> \<open>\<^verbatim>\<open>await mcpServer.server.connect(transport)\<close> rejects\<close>
  handle_throws :: bool   \<comment> \<open>\<^verbatim>\<open>await transport.handleRequest(...)\<close> rejects\<close>
  headers_sent :: bool   \<comment> \<open>\<^verbatim>\<open>res.headersSent\<close> after \<^verbatim>\<open>handleRequest\<close>\<close>

text \<open>The JSON-RPC error bodies that the handler itself writes; \<open>rpc_id = None\<close> is
  \<^verbatim>\<open>id: null\<close>.\<close>

record rpc_error =
  jsonrpc :: string
  error_code :: int
  error_message :: string
  rpc_id :: "nat option"

record http_response =
  status :: nat
  json :: rpc_error

definition token_required :: http_response where
  "token_required =
     \<lparr>status = 401,
      json = \<lparr>jsonrpc = ''2.0'', error_code = - 32001,
        error_message = ''GitHub token required. Provide via ?token=YOUR_TOKEN query param, X-GitHub-Token header, or GITHUB_PERSONAL_ACCESS_TOKEN environment variable.'',
        rpc_id = None\<rparr>\<rparr>"

definition internal_error :: http_response where
  "internal_error =
     \<lparr>status = 500,
      json = \<lparr>jsonrpc = ''2.0'', error_code = - 32603,
        error_message = ''Internal server error'', rpc_id = None\<rparr>\<rparr>"

text \<open>The steps of one run, in the order the handler takes them.\<close>

datatype event =
  TrackRequest
| TrackToolCall string string
| NewTransport nat
| CreateMcpServer string
| Connect nat
| CacheSet string nat
| HandleRequest nat
| LogError
| Respond nat

text \<open>
  The result of one run: the state after it, what the handler itself wrote with
  \<^verbatim>\<open>res.status(...).json(...)\<close> (\<open>None\<close>: it wrote nothing), the transport the request was
  forwarded to, and the steps taken.
\<close>

record outcome =
  state :: server
  response :: "http_response option"
  forwarded :: "nat option"
  trace :: "event list"

text \<open>Lines 494-496.\<close>

definition resolveToken :: "string option \<Rightarrow> request \<Rightarrow> string" where
  "resolveToken env req =
     js_or (query req ''token'') (js_or (headers req ''x-github-token'') (GITHUB_TOKEN env))"

text \<open>Line 511: \<^verbatim>\<open>req.body?.method === 'tools/call' && req.body?.params?.name\<close>; the name
  when the condition holds.\<close>

definition toolCallName :: "request \<Rightarrow> string option" where
  "toolCallName req =
     (case body req of
        None \<Rightarrow> None
      | Some b \<Rightarrow>
          if body_method b = Some ''tools/call''
          then (case body_params b of
                  None \<Rightarrow> None
                | Some p \<Rightarrow> if truthy (params_name p) then params_name p else None)
          else None)"

text \<open>Lines 517-526. The first component is the transport, or \<open>None\<close> when \<^verbatim>\<open>connect\<close>
  threw.\<close>

definition getOrCreate :: "world \<Rightarrow> string \<Rightarrow> server \<Rightarrow> nat option \<times> server \<times> event list" where
  "getOrCreate w token s =
     (case transports s token of
        Some t \<Rightarrow> (Some t, s, [])
      | None \<Rightarrow>
          (let t = length (sessions s);
               s1 = s\<lparr>sessions := sessions s @ [\<lparr>octokit_auth = token, connected = False\<rparr>]\<rparr>
           in if connect_throws w
              then (None, s1, [NewTransport t, CreateMcpServer token, Connect t])
              else (Some t,
                    s1\<lparr>sessions := (sessions s1)[t := (sessions s1 ! t)\<lparr>connected := True\<rparr>],
                       transports := (transports s1)(token \<mapsto> t)\<rparr>,
                    [NewTransport t, CreateMcpServer token, Connect t, CacheSet token t])))"

definition mcp_handler :: "string option \<Rightarrow> world \<Rightarrow> request \<Rightarrow> server \<Rightarrow> outcome" where
  "mcp_handler env w req s =
     (let a1 = trackRequest req ''/mcp'' (clock_request w) (analytics s);
          token = resolveToken env req
      in if token = []
         then \<lparr>state = s\<lparr>analytics := a1\<rparr>, response = Some token_required,
               forwarded = None, trace = [TrackRequest, Respond 401]\<rparr>
         else
           (let (a2, ev2) =
                  (case toolCallName req of
                     None \<Rightarrow> (a1, [])
                   | Some n \<Rightarrow> (trackToolCall n (getClientIp req) (clock_tool w) a1,
                                [TrackToolCall n (getClientIp req)]));
                (tr, s3, ev3) = getOrCreate w token (s\<lparr>analytics := a2\<rparr>)
            in case tr of
                 None \<Rightarrow>
                   \<lparr>state = s3, response = Some internal_error, forwarded = None,
                    trace = TrackRequest # ev2 @ ev3 @ [LogError, Respond 500]\<rparr>
               | Some t \<Rightarrow>
                   if handle_throws w
                   then (if headers_sent w
                         then \<lparr>state = s3, response = None, forwarded = Some t,
                               trace = TrackRequest # ev2 @ ev3 @ [HandleRequest t, LogError]\<rparr>
                         else \<lparr>state = s3, response = Some internal_error, forwarded = Some t,
                               trace = TrackRequest # ev2 @ ev3
                                 @ [HandleRequest t, LogError, Respond 500]\<rparr>)
                   else \<lparr>state = s3, response = None, forwarded = Some t,
                         trace = TrackRequest # ev2 @ ev3 @ [HandleRequest t]\<rparr>))"

subsection \<open>The other routes, and the server over time\<close>

text \<open>The handlers of \<^verbatim>\<open>/health\<close>, \<^verbatim>\<open>/analytics\<close>, \<^verbatim>\<open>/analytics/tools\<close>,
  \<^verbatim>\<open>/analytics/dashboard\<close> and \<^verbatim>\<open>/\<close> (lines 170-484) call \<^verbatim>\<open>trackRequest\<close> with their path
  and answer from the state without changing it further.\<close>

definition other_handler :: "string \<Rightarrow> string \<Rightarrow> request \<Rightarrow> server \<Rightarrow> server" where
  "other_handler endpoint now req s =
     s\<lparr>analytics := trackRequest req endpoint now (analytics s)\<rparr>"

text \<open>A request arrives at \<^verbatim>\<open>/mcp\<close>, with what its handler reads from outside, or at one of
  the other routes, with the path and the clock reading.\<close>

datatype arrival =
  ToMcp world request
| ToOther string string request

fun arrive :: "string option \<Rightarrow> arrival \<Rightarrow> server \<Rightarrow> server" where
  "arrive env (ToMcp w req) s = state (mcp_handler env w req s)"
| "arrive env (ToOther endpoint now req) s = other_handler endpoint now req s"

text \<open>Requests served one after the other.\<close>

fun serve :: "string option \<Rightarrow> arrival list \<Rightarrow> server \<Rightarrow> server" where
  "serve env [] s = s"
| "serve env (x # xs) s = serve env xs (arrive env x s)"

subsection \<open>Sample inputs\<close>

definition sample_request :: "string option \<Rightarrow> string option \<Rightarrow> rpc_body option \<Rightarrow> request" where
  "sample_request q h b =
     \<lparr>http_method = ''POST'',
      query = (\<lambda>k. if k = ''token'' then q else None),
      headers = (\<lambda>k. if k = ''x-github-token'' then h
                     else if k = ''user-agent'' then Some ''curl/8.5.0'' else None),
      remoteAddress = Some ''10.0.0.1'',
      body = b\<rparr>"

definition sample_world :: "bool \<Rightarrow> bool \<Rightarrow> bool \<Rightarrow> world" where
  "sample_world c h sent =
     \<lparr>clock_request = ''2026-01-01T10:00:00.000Z'', clock_tool = ''2026-01-01T10:00:00.001Z'',
      connect_throws = c, handle_throws = h, headers_sent = sent\<rparr>"

definition hello_call :: rpc_body where
  "hello_call =
     \<lparr>body_method = Some ''tools/call'', body_params = Some \<lparr>params_name = Some ''hello''\<rparr>\<rparr>"

definition unnamed_call :: rpc_body where
  "unnamed_call =
     \<lparr>body_method = Some ''tools/call'', body_params = Some \<lparr>params_name = Some []\<rparr>\<rparr>"

definition proto_call :: rpc_body where
  "proto_call =
     \<lparr>body_method = Some ''tools/call'',
      body_params = Some \<lparr>params_name = Some ''__proto__''\<rparr>\<rparr>"

definition long_agent :: string where
  "long_agent = ''Mozilla 5.0 (compatible; ExampleMonitoringBot 2.1; +contact admin at example.org)''"

subsection \<open>Notions used to state the properties\<close>

text \<open>The analytics after lines 491 and 511-513, for a request whose token resolves.\<close>

definition tracked :: "world \<Rightarrow> request \<Rightarrow> Analytics \<Rightarrow> Analytics" where
  "tracked w req a =
     (case toolCallName req of
        None \<Rightarrow> trackRequest req ''/mcp'' (clock_request w) a
      | Some n \<Rightarrow> trackToolCall n (getClientIp req) (clock_tool w)
                   (trackRequest req ''/mcp'' (clock_request w) a))"

text \<open>The calls of the two recorders that an arrival makes, in order.\<close>

fun recorder_calls :: "string option \<Rightarrow> arrival \<Rightarrow> telemetry_op list" where
  "recorder_calls env (ToMcp w req) =
     RecordRequest req ''/mcp'' (clock_request w)
     # (if resolveToken env req = [] then []
        else (case toolCallName req of
                None \<Rightarrow> []
              | Some n \<Rightarrow> [RecordToolCall n (getClientIp req) (clock_tool w)]))"
| "recorder_calls env (ToOther endpoint now req) = [RecordRequest req endpoint now]"

text \<open>The step that calls \<^verbatim>\<open>trackToolCall\<close> (line 512).\<close>

fun is_tool_call_step :: "event \<Rightarrow> bool" where
  "is_tool_call_step (TrackToolCall n ip) = True"
| "is_tool_call_step e = False"

text \<open>The steps that make a new session (lines 519-525).\<close>

fun is_construction :: "event \<Rightarrow> bool" where
  "is_construction (NewTransport t) = True"
| "is_construction (CreateMcpServer token) = True"
| "is_construction (Connect t) = True"
| "is_construction (CacheSet token t) = True"
| "is_construction e = False"

text \<open>The tokens for which a run of the server calls \<^verbatim>\<open>createMcpServer\<close>, in order.\<close>

fun created_tokens :: "event list \<Rightarrow> string list" where
  "created_tokens [] = []"
| "created_tokens (CreateMcpServer k # es) = k # created_tokens es"
| "created_tokens (e # es) = created_tokens es"

fun created :: "string option \<Rightarrow> arrival list \<Rightarrow> server \<Rightarrow> string list" where
  "created env [] s = []"
| "created env (ToMcp w req # xs) s =
     created_tokens (trace (mcp_handler env w req s))
     @ created env xs (state (mcp_handler env w req s))"
| "created env (ToOther endpoint now req # xs) s =
     created env xs (other_handler endpoint now req s)"

fun connect_succeeds :: "arrival \<Rightarrow> bool" where
  "connect_succeeds (ToMcp w req) = (\<not> connect_throws w)"
| "connect_succeeds (ToOther endpoint now req) = True"

text \<open>The invariant of the cache: every cached transport is in the store, is connected to
  a server made with the token it is cached under, and that token is not empty.\<close>

definition cache_ok :: "server \<Rightarrow> bool" where
  "cache_ok s =
     (\<forall>k t. transports s k = Some t \<longrightarrow>
        t < length (sessions s) \<and> octokit_auth (sessions s ! t) = k
        \<and> connected (sessions s ! t) \<and> k \<noteq> [])"

section \<open>Credential resolution\<close>

lemmas sample_defs =
  sample_request_def sample_world_def server0_def analytics0_def mcp_handler_def
  resolveToken_def GITHUB_TOKEN_def js_or_def truthy_def toolCallName_def getOrCreate_def
  other_handler_def Let_def

lemma js_or_eq: "js_or v d = (if truthy v then the v else d)"
  by (simp add: js_or_def truthy_def split: option.splits)

lemma js_or_empty: "js_or v d = [] \<longleftrightarrow> \<not> truthy v \<and> d = []"
  by (simp add: js_or_def truthy_def split: option.splits)

lemma GITHUB_TOKEN_empty: "GITHUB_TOKEN env = [] \<longleftrightarrow> \<not> truthy env"
  by (simp add: GITHUB_TOKEN_def js_or_empty)

lemma resolveToken_empty:
  "resolveToken env req = [] \<longleftrightarrow>
     \<not> truthy (query req ''token'') \<and> \<not> truthy (headers req ''x-github-token'') \<and> \<not> truthy env"
  by (simp add: resolveToken_def js_or_empty GITHUB_TOKEN_empty)

lemma response_distinct:
  "token_required \<noteq> internal_error" "internal_error \<noteq> token_required"
  by (simp_all add: token_required_def internal_error_def)

lemma handler_rejects_iff:
  "response (mcp_handler env w req s) = Some token_required \<longleftrightarrow> resolveToken env req = []"
  by (auto simp: mcp_handler_def Let_def response_distinct split: prod.splits option.splits)

text \<open>
  C1. The token of a request is the query parameter \<^verbatim>\<open>token\<close> when that is a non-empty
  string, otherwise the header \<^verbatim>\<open>x-github-token\<close> when that is a non-empty string,
  otherwise the configured default; it is empty, and the handler answers with the
  token-required error, exactly when all three are absent or empty.
\<close>

theorem credential_precedence:
  "resolveToken env req =
     (if truthy (query req ''token'') then the (query req ''token'')
      else if truthy (headers req ''x-github-token'') then the (headers req ''x-github-token'')
      else GITHUB_TOKEN env)
   \<and> (resolveToken env req = [] \<longleftrightarrow>
        \<not> truthy (query req ''token'') \<and> \<not> truthy (headers req ''x-github-token'')
        \<and> \<not> truthy env)
   \<and> (response (mcp_handler env w req s) = Some token_required \<longleftrightarrow>
        resolveToken env req = [])"
  using resolveToken_empty [of env req] handler_rejects_iff [of env w req s]
  by (simp add: resolveToken_def js_or_eq)

text \<open>Query, header and default all given; header and default; default only; none.\<close>

theorem credential_precedence_witness:
  "resolveToken (Some ''d'') (sample_request (Some ''q'') (Some ''h'') None) = ''q''
   \<and> resolveToken (Some ''d'') (sample_request None (Some ''h'') None) = ''h''
   \<and> resolveToken (Some ''d'') (sample_request None None None) = ''d''
   \<and> resolveToken None (sample_request None None None) = []
   \<and> response (mcp_handler None (sample_world False False False)
        (sample_request None None None) (server0 ''t0'')) = Some token_required"
  using
    credential_precedence [of "Some ''d''" "sample_request (Some ''q'') (Some ''h'') None"]
    credential_precedence [of "Some ''d''" "sample_request None (Some ''h'') None"]
    credential_precedence [of "Some ''d''" "sample_request None None None"]
    credential_precedence [of None "sample_request None None None"
      "sample_world False False False" "server0 ''t0''"]
  by (simp add: sample_defs)

section \<open>The handler, case by case\<close>

lemma getOrCreate_hit:
  "transports s token = Some t \<Longrightarrow> getOrCreate w token s = (Some t, s, [])"
  by (simp add: getOrCreate_def)

lemma getOrCreate_throw:
  "transports s token = None \<Longrightarrow> connect_throws w \<Longrightarrow>
   getOrCreate w token s =
     (None, s\<lparr>sessions := sessions s @ [\<lparr>octokit_auth = token, connected = False\<rparr>]\<rparr>,
      [NewTransport (length (sessions s)), CreateMcpServer token, Connect (length (sessions s))])"
  by (simp add: getOrCreate_def Let_def)

lemma getOrCreate_create:
  "transports s token = None \<Longrightarrow> \<not> connect_throws w \<Longrightarrow>
   getOrCreate w token s =
     (Some (length (sessions s)),
      s\<lparr>sessions := sessions s @ [\<lparr>octokit_auth = token, connected = True\<rparr>],
        transports := (transports s)(token \<mapsto> length (sessions s))\<rparr>,
      [NewTransport (length (sessions s)), CreateMcpServer token, Connect (length (sessions s)),
       CacheSet token (length (sessions s))])"
  by (simp add: getOrCreate_def Let_def)

lemma getOrCreate_cases:
  obtains (hit) t where "transports s token = Some t" "getOrCreate w token s = (Some t, s, [])"
  | (throw) "transports s token = None" "connect_throws w"
      "getOrCreate w token s =
     (None, s\<lparr>sessions := sessions s @ [\<lparr>octokit_auth = token, connected = False\<rparr>]\<rparr>,
      [NewTransport (length (sessions s)), CreateMcpServer token, Connect (length (sessions s))])"
  | (create) "transports s token = None" "\<not> connect_throws w"
      "getOrCreate w token s =
     (Some (length (sessions s)),
      s\<lparr>sessions := sessions s @ [\<lparr>octokit_auth = token, connected = True\<rparr>],
        transports := (transports s)(token \<mapsto> length (sessions s))\<rparr>,
      [NewTransport (length (sessions s)), CreateMcpServer token, Connect (length (sessions s)),
       CacheSet token (length (sessions s))])"
  by (cases "transports s token"; cases "connect_throws w")
     (auto simp: getOrCreate_hit getOrCreate_throw getOrCreate_create)

lemma getOrCreate_analytics: "analytics (fst (snd (getOrCreate w token s))) = analytics s"
  by (cases rule: getOrCreate_cases [of s token w]) simp_all

lemma handler_reject:
  "resolveToken env req = [] \<Longrightarrow>
   mcp_handler env w req s =
     \<lparr>state = s\<lparr>analytics := trackRequest req ''/mcp'' (clock_request w) (analytics s)\<rparr>,
      response = Some token_required, forwarded = None, trace = [TrackRequest, Respond 401]\<rparr>"
  by (simp add: mcp_handler_def Let_def)

lemma handler_accept:
  "resolveToken env req \<noteq> [] \<Longrightarrow>
   mcp_handler env w req s =
     (let ev2 = (case toolCallName req of
                   None \<Rightarrow> []
                 | Some n \<Rightarrow> [TrackToolCall n (getClientIp req)]);
          (tr, s3, ev3) = getOrCreate w (resolveToken env req)
                            (s\<lparr>analytics := tracked w req (analytics s)\<rparr>)
      in case tr of
           None \<Rightarrow>
             \<lparr>state = s3, response = Some internal_error, forwarded = None,
              trace = TrackRequest # ev2 @ ev3 @ [LogError, Respond 500]\<rparr>
         | Some t \<Rightarrow>
             if handle_throws w
             then (if headers_sent w
                   then \<lparr>state = s3, response = None, forwarded = Some t,
                         trace = TrackRequest # ev2 @ ev3 @ [HandleRequest t, LogError]\<rparr>
                   else \<lparr>state = s3, response = Some internal_error, forwarded = Some t,
                         trace = TrackRequest # ev2 @ ev3
                           @ [HandleRequest t, LogError, Respond 500]\<rparr>)
             else \<lparr>state = s3, response = None, forwarded = Some t,
                   trace = TrackRequest # ev2 @ ev3 @ [HandleRequest t]\<rparr>)"
  by (simp add: mcp_handler_def Let_def tracked_def split: option.splits)

lemma handler_state:
  "resolveToken env req \<noteq> [] \<Longrightarrow>
   state (mcp_handler env w req s) =
     fst (snd (getOrCreate w (resolveToken env req) (s\<lparr>analytics := tracked w req (analytics s)\<rparr>)))"
  by (simp add: handler_accept Let_def split: prod.splits option.splits)

lemma handler_forwarded:
  "resolveToken env req \<noteq> [] \<Longrightarrow>
   forwarded (mcp_handler env w req s) =
     fst (getOrCreate w (resolveToken env req) (s\<lparr>analytics := tracked w req (analytics s)\<rparr>))"
  by (simp add: handler_accept Let_def split: prod.splits option.splits)

lemma handler_hit:
  assumes "resolveToken env req \<noteq> []" and "transports s (resolveToken env req) = Some t"
  shows "forwarded (mcp_handler env w req s) = Some t"
    and "state (mcp_handler env w req s) = s\<lparr>analytics := tracked w req (analytics s)\<rparr>"
    and "filter is_construction (trace (mcp_handler env w req s)) = []"
proof -
  let ?s = "s\<lparr>analytics := tracked w req (analytics s)\<rparr>"
  have g: "getOrCreate w (resolveToken env req) ?s = (Some t, ?s, [])"
    using assms(2) by (simp add: getOrCreate_hit)
  show "forwarded (mcp_handler env w req s) = Some t"
    by (simp add: handler_forwarded [OF assms(1)] g)
  show "state (mcp_handler env w req s) = ?s"
    by (simp add: handler_state [OF assms(1)] g)
  show "filter is_construction (trace (mcp_handler env w req s)) = []"
    by (simp add: handler_accept [OF assms(1)] g Let_def split: option.splits)
qed

lemma handler_forwarded_cached:
  assumes "forwarded (mcp_handler env w req s) = Some t"
  shows "resolveToken env req \<noteq> []"
    and "transports (state (mcp_handler env w req s)) (resolveToken env req) = Some t"
proof -
  show n: "resolveToken env req \<noteq> []"
    using assms by (auto simp: handler_reject)
  let ?s = "s\<lparr>analytics := tracked w req (analytics s)\<rparr>"
  show "transports (state (mcp_handler env w req s)) (resolveToken env req) = Some t"
  proof (cases rule: getOrCreate_cases [of ?s "resolveToken env req" w])
    case (hit t')
    then show ?thesis using assms by (simp add: handler_state [OF n] handler_forwarded [OF n])
  next
    case throw
    then show ?thesis using assms by (simp add: handler_forwarded [OF n])
  next
    case create
    then show ?thesis using assms by (simp add: handler_state [OF n] handler_forwarded [OF n])
  qed
qed

section \<open>Requests without a credential\<close>

text \<open>
  C4. When no token resolves, the handler answers with status 401 and the JSON-RPC error
  of code -32001 and \<^verbatim>\<open>id: null\<close>, whose message names the query parameter, the header and
  the environment variable; nothing is forwarded, the cache and the store of sessions
  stay as they were, and the only steps are the request count and the answer.
\<close>

theorem missing_credential_rejected:
  assumes "resolveToken env req = []"
  shows "response (mcp_handler env w req s) = Some token_required
    \<and> status token_required = 401
    \<and> jsonrpc (json token_required) = ''2.0''
    \<and> error_code (json token_required) = - 32001
    \<and> rpc_id (json token_required) = None
    \<and> sublist ''?token='' (error_message (json token_required))
    \<and> sublist ''X-GitHub-Token'' (error_message (json token_required))
    \<and> sublist ''GITHUB_PERSONAL_ACCESS_TOKEN'' (error_message (json token_required))
    \<and> forwarded (mcp_handler env w req s) = None
    \<and> transports (state (mcp_handler env w req s)) = transports s
    \<and> sessions (state (mcp_handler env w req s)) = sessions s
    \<and> trace (mcp_handler env w req s) = [TrackRequest, Respond 401]"
proof -
  have "sublist ''?token='' (error_message (json token_required))"
    by (simp add: token_required_def sublist_Cons_right)
  moreover have "sublist ''X-GitHub-Token'' (error_message (json token_required))"
    by (simp add: token_required_def sublist_Cons_right)
  moreover have "sublist ''GITHUB_PERSONAL_ACCESS_TOKEN'' (error_message (json token_required))"
    by (simp add: token_required_def sublist_Cons_right)
  moreover have "status token_required = 401 \<and> jsonrpc (json token_required) = ''2.0''
    \<and> error_code (json token_required) = - 32001 \<and> rpc_id (json token_required) = None"
    by (simp add: token_required_def)
  ultimately show ?thesis
    by (simp add: handler_reject [OF assms])
qed

theorem missing_credential_rejected_witness:
  "resolveToken None (sample_request None (Some []) (Some hello_call)) = []
   \<and> response (mcp_handler None (sample_world False False False)
        (sample_request None (Some []) (Some hello_call)) (server0 ''t0'')) = Some token_required
   \<and> sessions (state (mcp_handler None (sample_world False False False)
        (sample_request None (Some []) (Some hello_call)) (server0 ''t0''))) = []"
  using missing_credential_rejected [of None "sample_request None (Some []) (Some hello_call)"
      "sample_world False False False" "server0 ''t0''"]
  by (simp add: sample_defs hello_call_def)

section \<open>The cache of sessions\<close>

lemma getOrCreate_cache_ok:
  assumes "cache_ok s" and "token \<noteq> []"
  shows "cache_ok (fst (snd (getOrCreate w token s)))"
proof (cases rule: getOrCreate_cases [of s token w])
  case (hit t)
  with assms show ?thesis by simp
next
  case throw
  have "t < length (sessions s) \<and> octokit_auth ((sessions s @ [x]) ! t) = k
        \<and> connected ((sessions s @ [x]) ! t) \<and> k \<noteq> []"
    if "transports s k = Some t" for k t x
    using that assms(1) by (simp add: cache_ok_def nth_append)
  then show ?thesis
    by (simp add: throw(3) cache_ok_def less_Suc_eq)
next
  case create
  have "t < length (sessions s) \<and> octokit_auth ((sessions s @ [x]) ! t) = k
        \<and> connected ((sessions s @ [x]) ! t) \<and> k \<noteq> []"
    if "transports s k = Some t" for k t x
    using that assms(1) by (simp add: cache_ok_def nth_append)
  then show ?thesis
    using assms(2) by (simp add: create(3) cache_ok_def less_Suc_eq)
qed

lemma handler_cache_ok: "cache_ok s \<Longrightarrow> cache_ok (state (mcp_handler env w req s))"
proof (cases "resolveToken env req = []")
  case True
  assume "cache_ok s"
  then show ?thesis by (simp add: handler_reject [OF True] cache_ok_def)
next
  case False
  assume "cache_ok s"
  then have "cache_ok (s\<lparr>analytics := tracked w req (analytics s)\<rparr>)"
    by (simp add: cache_ok_def)
  then show ?thesis
    by (simp add: handler_state [OF False] getOrCreate_cache_ok [OF _ False])
qed

lemma arrive_cache_ok:
  assumes "cache_ok s"
  shows "cache_ok (arrive env x s)"
proof (cases x)
  case (ToMcp w req)
  then show ?thesis using assms by (simp add: handler_cache_ok)
next
  case (ToOther endpoint now req)
  then show ?thesis using assms by (simp add: other_handler_def cache_ok_def)
qed

lemma serve_cache_ok: "cache_ok s \<Longrightarrow> cache_ok (serve env rs s)"
  by (induction rs arbitrary: s) (simp_all add: arrive_cache_ok)

lemma cache_ok_server0: "cache_ok (server0 start)"
  by (simp add: cache_ok_def server0_def)

text \<open>An entry of the cache is never replaced or removed.\<close>

lemma handler_keeps_entry:
  assumes "transports s k = Some t"
  shows "transports (state (mcp_handler env w req s)) k = Some t"
proof (cases "resolveToken env req = []")
  case True
  then show ?thesis using assms by (simp add: handler_reject)
next
  case False
  let ?s = "s\<lparr>analytics := tracked w req (analytics s)\<rparr>"
  show ?thesis
  proof (cases rule: getOrCreate_cases [of ?s "resolveToken env req" w])
    case (hit t')
    then show ?thesis using assms by (simp add: handler_state [OF False])
  next
    case throw
    then show ?thesis using assms by (simp add: handler_state [OF False])
  next
    case create
    then have "k \<noteq> resolveToken env req" using assms by auto
    then show ?thesis using assms create by (simp add: handler_state [OF False])
  qed
qed

lemma arrive_keeps_entry:
  "transports s k = Some t \<Longrightarrow> transports (arrive env x s) k = Some t"
  by (cases x) (simp_all add: handler_keeps_entry other_handler_def)

lemma serve_keeps_entry:
  "transports s k = Some t \<Longrightarrow> transports (serve env rs s) k = Some t"
  by (induction rs arbitrary: s) (simp_all add: arrive_keeps_entry)

lemma handler_new_session_only_on_miss:
  assumes "sessions (state (mcp_handler env w req s)) \<noteq> sessions s"
  shows "resolveToken env req \<noteq> [] \<and> transports s (resolveToken env req) = None"
proof (cases "resolveToken env req = []")
  case True
  then show ?thesis using assms by (simp add: handler_reject)
next
  case False
  show ?thesis
  proof (cases "transports s (resolveToken env req)")
    case None
    with False show ?thesis by simp
  next
    case (Some t)
    then show ?thesis using assms by (simp add: handler_hit(2) [OF False Some])
  qed
qed

text \<open>Without an error of \<^verbatim>\<open>connect\<close>, no token gets a second session.\<close>

lemma created_tokens_append: "created_tokens (xs @ ys) = created_tokens xs @ created_tokens ys"
  by (induction xs rule: created_tokens.induct) simp_all

lemma handler_created:
  "created_tokens (trace (mcp_handler env w req s)) =
     (if resolveToken env req \<noteq> [] \<and> transports s (resolveToken env req) = None
      then [resolveToken env req] else [])"
proof (cases "resolveToken env req = []")
  case True
  then show ?thesis by (simp add: handler_reject)
next
  case False
  let ?s = "s\<lparr>analytics := tracked w req (analytics s)\<rparr>"
  show ?thesis
    using False
    by (cases rule: getOrCreate_cases [of ?s "resolveToken env req" w])
       (simp_all add: handler_accept [OF False] Let_def created_tokens_append
          split: option.splits)
qed

lemma handler_caches_created:
  assumes "resolveToken env req \<noteq> []" and "\<not> connect_throws w"
  shows "transports (state (mcp_handler env w req s)) (resolveToken env req) \<noteq> None"
proof -
  let ?s = "s\<lparr>analytics := tracked w req (analytics s)\<rparr>"
  show ?thesis
    using assms(2)
    by (cases rule: getOrCreate_cases [of ?s "resolveToken env req" w])
       (simp_all add: handler_state [OF assms(1)])
qed

lemma dom_arrive: "dom (transports s) \<subseteq> dom (transports (arrive env x s))"
  using arrive_keeps_entry [of s _ _ env x] by (auto simp: dom_def)

lemma created_once:
  "list_all connect_succeeds xs \<Longrightarrow>
   distinct (created env xs s) \<and> set (created env xs s) \<inter> dom (transports s) = {}"
proof (induction xs arbitrary: s)
  case Nil
  then show ?case by simp
next
  case (Cons x xs)
  then have ih: "distinct (created env xs (arrive env x s))"
      "set (created env xs (arrive env x s)) \<inter> dom (transports (arrive env x s)) = {}"
    by simp_all
  have sub: "set (created env xs (arrive env x s)) \<inter> dom (transports s) = {}"
    using ih(2) dom_arrive [of s env x] by blast
  show ?case
  proof (cases x)
    case (ToOther endpoint now req)
    then show ?thesis using ih sub by simp
  next
    case (ToMcp w req)
    then have ok: "\<not> connect_throws w" using Cons.prems by simp
    show ?thesis
    proof (cases "resolveToken env req \<noteq> [] \<and> transports s (resolveToken env req) = None")
      case False
      then have "created_tokens (trace (mcp_handler env w req s)) = []"
        by (simp add: handler_created)
      then show ?thesis using ih sub ToMcp by simp
    next
      case True
      then have c: "created_tokens (trace (mcp_handler env w req s)) = [resolveToken env req]"
        by (simp add: handler_created)
      have "resolveToken env req \<in> dom (transports (arrive env x s))"
        using handler_caches_created [of env req w s] ok ToMcp True by (auto simp: dom_def)
      then have "resolveToken env req \<notin> set (created env xs (arrive env x s))"
        using ih(2) by blast
      moreover have "resolveToken env req \<notin> dom (transports s)"
        using True by (simp add: dom_def)
      ultimately show ?thesis
        using ih sub ToMcp by (simp add: c)
    qed
  qed
qed

text \<open>
  C2. When the cache holds a session for a token, a request bearing that token, also after
  any further requests served in between, is forwarded to that same session; the run
  leaves the cache and the store of sessions as they were and takes none of the steps
  that make a transport, a server with its client, or a cache entry. A run adds to the
  store of sessions only when the cache holds nothing for the request's token, and the
  session a request was forwarded to is the one cached for its token afterwards. From
  start-up, as long as \<^verbatim>\<open>connect\<close> does not throw, \<^verbatim>\<open>createMcpServer\<close> is called at most
  once for each token.
\<close>

theorem session_cache_idempotent:
  "(transports s token = Some t \<and> resolveToken env req = token \<and> token \<noteq> [] \<longrightarrow>
      forwarded (mcp_handler env w req (serve env rs s)) = Some t
      \<and> transports (state (mcp_handler env w req (serve env rs s))) = transports (serve env rs s)
      \<and> sessions (state (mcp_handler env w req (serve env rs s))) = sessions (serve env rs s)
      \<and> filter is_construction (trace (mcp_handler env w req (serve env rs s))) = [])
   \<and> (sessions (state (mcp_handler env w req s)) \<noteq> sessions s \<longrightarrow>
      transports s (resolveToken env req) = None)
   \<and> (forwarded (mcp_handler env w req s) = Some t \<longrightarrow>
      transports (state (mcp_handler env w req s)) (resolveToken env req) = Some t)
   \<and> (list_all connect_succeeds xs \<longrightarrow> distinct (created env xs (server0 start)))"
proof -
  have "forwarded (mcp_handler env w req (serve env rs s)) = Some t
      \<and> transports (state (mcp_handler env w req (serve env rs s))) = transports (serve env rs s)
      \<and> sessions (state (mcp_handler env w req (serve env rs s))) = sessions (serve env rs s)
      \<and> filter is_construction (trace (mcp_handler env w req (serve env rs s))) = []"
    if a: "transports s token = Some t" "resolveToken env req = token" "token \<noteq> []"
  proof -
    have n: "resolveToken env req \<noteq> []" using a by simp
    have h: "transports (serve env rs s) (resolveToken env req) = Some t"
      using a by (simp add: serve_keeps_entry)
    show ?thesis
      by (simp add: handler_hit [OF n h])
  qed
  then show ?thesis
    using handler_new_session_only_on_miss [of env w req s]
      handler_forwarded_cached(2) [of env w req s t]
      created_once [of xs env "server0 start"]
    by blast
qed

text \<open>A first request with token \<open>a\<close> makes session 0; after a request with token \<open>b\<close>,
  a request with \<open>a\<close> in the header is forwarded to session 0 and the store still holds
  two sessions.\<close>

theorem session_cache_idempotent_witness:
  "transports (serve None [ToMcp (sample_world False False False) (sample_request (Some ''a'') None None)]
      (server0 ''t0'')) ''a'' = Some 0
   \<and> resolveToken None (sample_request None (Some ''a'') (Some hello_call)) = ''a''
   \<and> forwarded (mcp_handler None (sample_world False True False)
        (sample_request None (Some ''a'') (Some hello_call))
        (serve None [ToMcp (sample_world False False False) (sample_request (Some ''b'') None None)]
          (serve None [ToMcp (sample_world False False False) (sample_request (Some ''a'') None None)]
            (server0 ''t0'')))) = Some 0
   \<and> length (sessions (state (mcp_handler None (sample_world False True False)
        (sample_request None (Some ''a'') (Some hello_call))
        (serve None [ToMcp (sample_world False False False) (sample_request (Some ''b'') None None)]
          (serve None [ToMcp (sample_world False False False) (sample_request (Some ''a'') None None)]
            (server0 ''t0'')))))) = 2
   \<and> sessions (state (mcp_handler None (sample_world False False False)
        (sample_request (Some ''a'') None None) (server0 ''t0''))) \<noteq> sessions (server0 ''t0'')
   \<and> transports (server0 ''t0'') ''a'' = None
   \<and> forwarded (mcp_handler None (sample_world False False False)
        (sample_request (Some ''a'') None None) (server0 ''t0'')) = Some 0
   \<and> list_all connect_succeeds
        [ToMcp (sample_world False False False) (sample_request (Some ''a'') None None),
         ToOther ''/health'' ''2026-01-01T10:00:01.000Z'' (sample_request None None None),
         ToMcp (sample_world False False False) (sample_request (Some ''b'') None None),
         ToMcp (sample_world False True False) (sample_request None (Some ''a'') None)]
   \<and> created None
        [ToMcp (sample_world False False False) (sample_request (Some ''a'') None None),
         ToOther ''/health'' ''2026-01-01T10:00:01.000Z'' (sample_request None None None),
         ToMcp (sample_world False False False) (sample_request (Some ''b'') None None),
         ToMcp (sample_world False True False) (sample_request None (Some ''a'') None)]
        (server0 ''t0'') = [''a'', ''b'']"
  using
    session_cache_idempotent [of
      "serve None [ToMcp (sample_world False False False) (sample_request (Some ''a'') None None)]
         (server0 ''t0'')"
      "''a''" 0 None "sample_request None (Some ''a'') (Some hello_call)"
      "sample_world False True False"
      "[ToMcp (sample_world False False False) (sample_request (Some ''b'') None None)]"]
    session_cache_idempotent [of "server0 ''t0''" "''a''" 0 None
      "sample_request (Some ''a'') None None" "sample_world False False False" "[]"
      "[ToMcp (sample_world False False False) (sample_request (Some ''a'') None None),
        ToOther ''/health'' ''2026-01-01T10:00:01.000Z'' (sample_request None None None),
        ToMcp (sample_world False False False) (sample_request (Some ''b'') None None),
        ToMcp (sample_world False True False) (sample_request None (Some ''a'') None)]" "''t0''"]
  by (simp add: sample_defs hello_call_def)

text \<open>
  C5. In a run of requests from start-up, two requests whose tokens differ are forwarded
  to different sessions, and the client of each of them was made with the token of the
  request forwarded to it: the session serving one token holds no client of another.
\<close>

theorem credential_isolation:
  assumes "s1 = serve env rs (server0 start)"
    and "o1 = mcp_handler env w1 r1 s1"
    and "o2 = mcp_handler env w2 r2 (serve env mid (state o1))"
    and "forwarded o1 = Some t1"
    and "forwarded o2 = Some t2"
    and "resolveToken env r1 \<noteq> resolveToken env r2"
  shows "t1 \<noteq> t2
    \<and> octokit_auth (sessions (state o2) ! t1) = resolveToken env r1
    \<and> octokit_auth (sessions (state o2) ! t2) = resolveToken env r2
    \<and> transports (state o2) (resolveToken env r1) = Some t1
    \<and> transports (state o2) (resolveToken env r2) = Some t2"
proof -
  have "cache_ok s1"
    unfolding assms(1) by (rule serve_cache_ok [OF cache_ok_server0])
  then have "cache_ok (state o1)"
    unfolding assms(2) by (rule handler_cache_ok)
  then have "cache_ok (serve env mid (state o1))"
    by (rule serve_cache_ok)
  then have ok: "cache_ok (state o2)"
    unfolding assms(3) by (rule handler_cache_ok)
  have "transports (state o1) (resolveToken env r1) = Some t1"
    using assms(4) unfolding assms(2) by (rule handler_forwarded_cached(2))
  then have "transports (serve env mid (state o1)) (resolveToken env r1) = Some t1"
    by (rule serve_keeps_entry)
  then have c1: "transports (state o2) (resolveToken env r1) = Some t1"
    unfolding assms(3) by (rule handler_keeps_entry)
  have c2: "transports (state o2) (resolveToken env r2) = Some t2"
    using assms(5) unfolding assms(3) by (rule handler_forwarded_cached(2))
  have a1: "octokit_auth (sessions (state o2) ! t1) = resolveToken env r1"
    using ok c1 by (simp add: cache_ok_def)
  have a2: "octokit_auth (sessions (state o2) ! t2) = resolveToken env r2"
    using ok c2 by (simp add: cache_ok_def)
  have "t1 \<noteq> t2"
    using a1 a2 assms(6) by auto
  then show ?thesis
    using a1 a2 c1 c2 by simp
qed

theorem credential_isolation_witness:
  "forwarded (mcp_handler None (sample_world False False False)
      (sample_request (Some ''a'') None None) (serve None [] (server0 ''t0''))) = Some 0
   \<and> forwarded (mcp_handler None (sample_world False False False)
      (sample_request (Some ''b'') None None)
      (serve None []
        (state (mcp_handler None (sample_world False False False)
          (sample_request (Some ''a'') None None) (serve None [] (server0 ''t0'')))))) = Some 1
   \<and> resolveToken None (sample_request (Some ''a'') None None)
       \<noteq> resolveToken None (sample_request (Some ''b'') None None)
   \<and> (0::nat) \<noteq> 1
   \<and> map octokit_auth (sessions (state (mcp_handler None (sample_world False False False)
      (sample_request (Some ''b'') None None)
      (serve None []
        (state (mcp_handler None (sample_world False False False)
          (sample_request (Some ''a'') None None) (serve None [] (server0 ''t0''))))))))
      = [''a'', ''b'']"
  using credential_isolation [OF refl refl refl, of None "sample_world False False False"
      "sample_request (Some ''a'') None None" "[]" "''t0''" 0
      "sample_world False False False" "sample_request (Some ''b'') None None" "[]" 1]
  by (simp add: sample_defs)

lemma status_401_iff:
  "map_option status (response (mcp_handler env w req s)) = Some 401 \<longleftrightarrow>
     resolveToken env req = []"
  by (auto simp: mcp_handler_def Let_def token_required_def internal_error_def
      split: prod.splits option.splits)

text \<open>
  C10. An empty query parameter \<^verbatim>\<open>token\<close> gives way to the header; when neither the query
  parameter nor the header is a non-empty string the token is the configured default; the
  handler answers with status 401 exactly when the query parameter, the header and the
  environment variable are all absent or empty; and in every state reached from start-up
  each token in the cache is non-empty and is the token of its session's client.
\<close>

theorem empty_credential_never_wins:
  "(query req ''token'' = Some [] \<longrightarrow>
      resolveToken env req = js_or (headers req ''x-github-token'') (GITHUB_TOKEN env))
   \<and> (\<not> truthy (query req ''token'') \<and> \<not> truthy (headers req ''x-github-token'') \<longrightarrow>
      resolveToken env req = GITHUB_TOKEN env)
   \<and> (map_option status (response (mcp_handler env w req s)) = Some 401 \<longleftrightarrow>
        \<not> truthy (query req ''token'') \<and> \<not> truthy (headers req ''x-github-token'')
        \<and> \<not> truthy env)
   \<and> (\<forall>token t. transports (serve env rs (server0 start)) token = Some t \<longrightarrow>
        token \<noteq> [] \<and> octokit_auth (sessions (serve env rs (server0 start)) ! t) = token)"
proof -
  have "cache_ok (serve env rs (server0 start))"
    by (rule serve_cache_ok [OF cache_ok_server0])
  then have "\<forall>token t. transports (serve env rs (server0 start)) token = Some t \<longrightarrow>
        token \<noteq> [] \<and> octokit_auth (sessions (serve env rs (server0 start)) ! t) = token"
    by (simp add: cache_ok_def)
  moreover have "query req ''token'' = Some [] \<longrightarrow>
      resolveToken env req = js_or (headers req ''x-github-token'') (GITHUB_TOKEN env)"
    by (simp add: resolveToken_def js_or_def)
  moreover have "\<not> truthy (query req ''token'') \<and> \<not> truthy (headers req ''x-github-token'') \<longrightarrow>
      resolveToken env req = GITHUB_TOKEN env"
    by (simp add: resolveToken_def js_or_eq)
  ultimately show ?thesis
    by (simp only: status_401_iff resolveToken_empty simp_thms)
qed

theorem empty_credential_never_wins_witness:
  "query (sample_request (Some []) (Some ''h'') None) ''token'' = Some []
   \<and> resolveToken (Some ''d'') (sample_request (Some []) (Some ''h'') None) = ''h''
   \<and> resolveToken (Some ''d'') (sample_request (Some []) (Some []) None) = ''d''
   \<and> map_option status (response (mcp_handler None (sample_world False False False)
        (sample_request (Some []) (Some []) None) (server0 ''t0''))) = Some 401
   \<and> transports (serve (Some ''d'')
        [ToMcp (sample_world False False False) (sample_request (Some []) (Some ''h'') None)]
        (server0 ''t0'')) ''h'' = Some 0
   \<and> octokit_auth (sessions (serve (Some ''d'')
        [ToMcp (sample_world False False False) (sample_request (Some []) (Some ''h'') None)]
        (server0 ''t0'')) ! 0) = ''h''"
  using
    empty_credential_never_wins [of "sample_request (Some []) (Some ''h'') None" "Some ''d''"
      "sample_world False False False" "server0 ''t0''"
      "[ToMcp (sample_world False False False) (sample_request (Some []) (Some ''h'') None)]" "''t0''"]
    empty_credential_never_wins [of "sample_request (Some []) (Some []) None" "Some ''d''"]
    empty_credential_never_wins [of "sample_request (Some []) (Some []) None" None
      "sample_world False False False" "server0 ''t0''"]
  by (simp add: sample_defs)

section \<open>Errors while forwarding\<close>

text \<open>
  C9. When \<^verbatim>\<open>handleRequest\<close> throws for a request that was forwarded to a session, the
  handler answers with status 500 and the JSON-RPC error of code -32603 exactly when no
  headers have been sent; when they have been sent it writes nothing. The error is logged
  once in both cases.
\<close>

theorem internal_error_only_if_unsent:
  assumes "forwarded (mcp_handler env w req s) = Some t"
    and "handle_throws w"
  shows "(response (mcp_handler env w req s) = Some internal_error \<longleftrightarrow> \<not> headers_sent w)
    \<and> (response (mcp_handler env w req s) = None \<longleftrightarrow> headers_sent w)
    \<and> (Respond 500 \<in> set (trace (mcp_handler env w req s)) \<longleftrightarrow> \<not> headers_sent w)
    \<and> filter (\<lambda>e. e = LogError) (trace (mcp_handler env w req s)) = [LogError]
    \<and> status internal_error = 500
    \<and> jsonrpc (json internal_error) = ''2.0''
    \<and> error_code (json internal_error) = - 32603
    \<and> error_message (json internal_error) = ''Internal server error''
    \<and> rpc_id (json internal_error) = None"
proof -
  have n: "resolveToken env req \<noteq> []"
    using assms(1) by (rule handler_forwarded_cached(1))
  let ?s = "s\<lparr>analytics := tracked w req (analytics s)\<rparr>"
  have "fst (getOrCreate w (resolveToken env req) ?s) = Some t"
    using assms(1) by (simp add: handler_forwarded [OF n])
  then obtain s' ev where g: "getOrCreate w (resolveToken env req) ?s = (Some t, s', ev)"
    by (cases "getOrCreate w (resolveToken env req) ?s") auto
  have ev: "filter (\<lambda>e. e = LogError) ev = [] \<and> Respond 500 \<notin> set ev"
    using g by (cases rule: getOrCreate_cases [of ?s "resolveToken env req" w]) auto
  show ?thesis
    using assms(2) ev
    by (simp add: handler_accept [OF n] g internal_error_def Let_def split: option.splits)
qed

theorem internal_error_only_if_unsent_witness:
  "forwarded (mcp_handler None (sample_world False True False)
      (sample_request (Some ''a'') None None) (server0 ''t0'')) = Some 0
   \<and> handle_throws (sample_world False True False)
   \<and> response (mcp_handler None (sample_world False True False)
      (sample_request (Some ''a'') None None) (server0 ''t0'')) = Some internal_error
   \<and> forwarded (mcp_handler None (sample_world False True True)
      (sample_request (Some ''a'') None None) (server0 ''t0'')) = Some 0
   \<and> handle_throws (sample_world False True True)
   \<and> response (mcp_handler None (sample_world False True True)
      (sample_request (Some ''a'') None None) (server0 ''t0'')) = None"
  using
    internal_error_only_if_unsent [of None "sample_world False True False"
      "sample_request (Some ''a'') None None" "server0 ''t0''" 0]
    internal_error_only_if_unsent [of None "sample_world False True True"
      "sample_request (Some ''a'') None None" "server0 ''t0''" 0]
  by (simp add: sample_defs)

text \<open>An exception of \<^verbatim>\<open>connect\<close> is caught by the same handler before anything is sent.\<close>

lemma connect_error_answered:
  assumes "resolveToken env req \<noteq> []" and "transports s (resolveToken env req) = None"
    and "connect_throws w"
  shows "response (mcp_handler env w req s) = Some internal_error"
    and "forwarded (mcp_handler env w req s) = None"
    and "transports (state (mcp_handler env w req s)) = transports s"
  using assms by (simp_all add: handler_accept getOrCreate_throw)

section \<open>Telemetry\<close>

subsection \<open>The list of recent tool calls\<close>

lemma trackRequest_recent:
  "recentToolCalls (trackRequest req endpoint now a) = recentToolCalls a"
  by (simp add: trackRequest_def)

lemma trackToolCall_recent:
  "length (recentToolCalls a) \<le> 100 \<Longrightarrow>
   recentToolCalls (trackToolCall n ip now a)
     = take 100 (\<lparr>tool = n, timestamp = now, clientIp = ip\<rparr> # recentToolCalls a)"
proof (cases "length (recentToolCalls a) = 100")
  case True
  then have "recentToolCalls a \<noteq> []" by auto
  moreover have "butlast (recentToolCalls a) = take 99 (recentToolCalls a)"
    using True by (simp add: butlast_conv_take)
  ultimately show ?thesis
    using True by (simp add: trackToolCall_def Let_def)
next
  case False
  assume "length (recentToolCalls a) \<le> 100"
  with False have "length (recentToolCalls a) < 100" by simp
  then show ?thesis
    by (simp add: trackToolCall_def Let_def)
qed

lemma record_op_recent:
  assumes "length (recentToolCalls a) \<le> 100"
  shows "recentToolCalls (record_op x a) = take 100 (rev (recorded_calls [x]) @ recentToolCalls a)"
  using assms by (cases x) (simp_all add: trackToolCall_recent trackRequest_recent)

lemma take_append_take: "take n (xs @ take n ys) = take n (xs @ ys)"
  by (simp add: min_def)

lemma recorded_calls_Cons: "recorded_calls (x # xs) = recorded_calls [x] @ recorded_calls xs"
  by (cases x) simp_all

lemma record_all_recent:
  "length (recentToolCalls a) \<le> 100 \<Longrightarrow>
   recentToolCalls (record_all ops a) = take 100 (rev (recorded_calls ops) @ recentToolCalls a)"
proof (induction ops arbitrary: a)
  case Nil
  then show ?case by simp
next
  case (Cons x xs)
  have step: "recentToolCalls (record_op x a)
      = take 100 (rev (recorded_calls [x]) @ recentToolCalls a)"
    using Cons.prems by (rule record_op_recent)
  then have "length (recentToolCalls (record_op x a)) \<le> 100"
    by simp
  then have "recentToolCalls (record_all xs (record_op x a))
      = take 100 (rev (recorded_calls xs) @ recentToolCalls (record_op x a))"
    by (rule Cons.IH)
  also have "\<dots> = take 100 (rev (recorded_calls xs) @ rev (recorded_calls [x]) @ recentToolCalls a)"
    by (simp only: step take_append_take)
  finally show ?case
    by (simp add: recorded_calls_Cons [of x xs])
qed

lemma recorded_calls_append:
  "recorded_calls (xs @ ys) = recorded_calls xs @ recorded_calls ys"
  by (induction xs rule: recorded_calls.induct) simp_all

lemma recorded_calls_replicate:
  "length (recorded_calls (concat (replicate n ops))) = n * length (recorded_calls ops)"
  by (induction n) (simp_all add: recorded_calls_append)

lemma record_all_append: "record_all (xs @ ys) a = record_all ys (record_all xs a)"
  by (induction xs arbitrary: a) simp_all

lemma arrive_analytics:
  "analytics (arrive env x s) = record_all (recorder_calls env x) (analytics s)"
proof (cases x)
  case (ToMcp w req)
  show ?thesis
  proof (cases "resolveToken env req = []")
    case True
    then show ?thesis by (simp add: ToMcp handler_reject)
  next
    case False
    then show ?thesis
      by (simp add: ToMcp handler_state getOrCreate_analytics tracked_def split: option.splits)
  qed
next
  case (ToOther endpoint now req)
  then show ?thesis by (simp add: other_handler_def)
qed

lemma serve_analytics:
  "analytics (serve env xs s) = record_all (concat (map (recorder_calls env) xs)) (analytics s)"
  by (induction xs arbitrary: s) (simp_all add: record_all_append arrive_analytics)

text \<open>
  C6. After any sequence of \<^verbatim>\<open>trackRequest\<close> and \<^verbatim>\<open>trackToolCall\<close> from start-up,
  \<^verbatim>\<open>recentToolCalls\<close> has at most 100 entries and is the recorded tool calls, latest first,
  cut to the latest 100; one more \<^verbatim>\<open>trackToolCall\<close> puts its entry at the front and keeps
  the first 100; \<^verbatim>\<open>trackRequest\<close> leaves the list as it is. So it is in every state the
  server reaches from start-up, whatever requests arrive at its routes.
\<close>

theorem recent_calls_bounded_recent_first:
  "length (recentToolCalls (record_all ops (analytics0 start))) \<le> 100
   \<and> recentToolCalls (record_all ops (analytics0 start)) = take 100 (rev (recorded_calls ops))
   \<and> recentToolCalls (trackToolCall n ip now (record_all ops (analytics0 start)))
      = take 100 (\<lparr>tool = n, timestamp = now, clientIp = ip\<rparr>
          # recentToolCalls (record_all ops (analytics0 start)))
   \<and> recentToolCalls (trackRequest req endpoint now (record_all ops (analytics0 start)))
      = recentToolCalls (record_all ops (analytics0 start))
   \<and> length (recentToolCalls (analytics (serve env xs (server0 start)))) \<le> 100
   \<and> recentToolCalls (analytics (serve env xs (server0 start)))
      = take 100 (rev (recorded_calls (concat (map (recorder_calls env) xs))))"
proof -
  have e: "recentToolCalls (record_all ys (analytics0 start)) = take 100 (rev (recorded_calls ys))"
    for ys
    using record_all_recent [of "analytics0 start" ys] by (simp add: analytics0_def)
  then have l: "length (recentToolCalls (record_all ops (analytics0 start))) \<le> 100"
    by simp
  have "analytics (serve env xs (server0 start))
      = record_all (concat (map (recorder_calls env) xs)) (analytics0 start)"
    by (simp add: serve_analytics server0_def)
  then have "recentToolCalls (analytics (serve env xs (server0 start)))
      = take 100 (rev (recorded_calls (concat (map (recorder_calls env) xs))))"
    by (simp only: e)
  then show ?thesis
    using e [of ops] l trackToolCall_recent [OF l] by (simp add: trackRequest_recent)
qed

text \<open>Two tool calls with a request in between; and 101 tool calls made through \<^verbatim>\<open>/mcp\<close>,
  of which the latest 100 are kept.\<close>

theorem recent_calls_bounded_recent_first_witness:
  "map tool (recentToolCalls (record_all
      [RecordToolCall ''first'' ''10.0.0.1'' ''2026-01-01T10:00:00.000Z'',
       RecordRequest (sample_request None None None) ''/health'' ''2026-01-01T10:00:01.000Z'',
       RecordToolCall ''second'' ''10.0.0.1'' ''2026-01-01T10:00:02.000Z'']
      (analytics0 ''t0''))) = [''second'', ''first'']
   \<and> length (recentToolCalls (analytics (serve None
        (replicate 101 (ToMcp (sample_world False False False)
           (sample_request (Some ''a'') None (Some hello_call))))
        (server0 ''t0'')))) = 100"
  using
    recent_calls_bounded_recent_first [of
      "[RecordToolCall ''first'' ''10.0.0.1'' ''2026-01-01T10:00:00.000Z'',
       RecordRequest (sample_request None None None) ''/health'' ''2026-01-01T10:00:01.000Z'',
       RecordToolCall ''second'' ''10.0.0.1'' ''2026-01-01T10:00:02.000Z'']" "''t0''"]
    recent_calls_bounded_recent_first [of "[]" "''t0''" _ _ _ _ _ None
      "replicate 101 (ToMcp (sample_world False False False)
           (sample_request (Some ''a'') None (Some hello_call)))"]
  by (simp add: sample_defs hello_call_def map_replicate_const recorded_calls_replicate)

subsection \<open>The counter objects\<close>

lemma inherited_text_proto: "inherited_text ''__proto__'' = Some ''[object Object]''"
  by (simp add: inherited_text_def)

lemma incr_absent:
  assumes "m k = None" and "inherited_text k = None"
  shows "incr m k = m(k \<mapsto> Count 1)"
proof -
  have "k \<noteq> ''__proto__''"
  proof
    assume "k = ''__proto__''"
    with assms(2) show False by (simp add: inherited_text_proto)
  qed
  then show ?thesis
    by (simp add: incr_def or_zero_plus_one_def assms)
qed

lemma incr_count:
  "m k = Some (Count c) \<Longrightarrow> incr m k = m(k \<mapsto> Count (c + 1))"
  by (simp add: incr_def or_zero_plus_one_def)

lemma incr_proto:
  "m ''__proto__'' = None \<Longrightarrow> incr m ''__proto__'' = m"
  by (simp add: incr_def)

lemma incr_constructor:
  "m ''constructor'' = None \<Longrightarrow>
   incr m ''constructor'' = m(''constructor'' \<mapsto> Text ''function Object() { [native code] }1'')"
  by (simp add: incr_def or_zero_plus_one_def inherited_text_def)

lemma incr_other: "j \<noteq> k \<Longrightarrow> incr m k j = m j"
  by (simp add: incr_def)

subsection \<open>The user-agent key\<close>

lemma shortUserAgent_no_slash:
  "CHR ''/'' \<notin> set ua \<Longrightarrow> shortUserAgent ua = ua"
  by (cases ua) (auto simp: shortUserAgent_def split_first_def Let_def)

lemma shortUserAgent_product:
  "CHR ''/'' \<notin> set pre \<Longrightarrow> pre \<noteq> [] \<Longrightarrow> shortUserAgent (pre @ CHR ''/'' # post) = pre"
  by (simp add: shortUserAgent_def split_first_def Let_def takeWhile_append)

lemma shortUserAgent_leading_slash:
  "shortUserAgent (CHR ''/'' # post) = take 50 (CHR ''/'' # post)"
  by (simp add: shortUserAgent_def split_first_def)

lemma trackRequest_user_agent:
  "clientsByUserAgent (trackRequest req endpoint now a)
     = incr (clientsByUserAgent a) (userAgentKey req)"
  by (simp add: trackRequest_def)

text \<open>
  C7, as the claim states it, fails in both of its cases. The user agent \<^verbatim>\<open>/1.0\<close> is
  counted under \<^verbatim>\<open>/1.0\<close>, not under the empty string before its first \<^verbatim>\<open>/\<close>: the cut to
  50 characters is what line 79 falls back to when nothing stands before the first \<^verbatim>\<open>/\<close>.
  A user agent of 81 characters without \<^verbatim>\<open>/\<close> is counted under all of its 81 characters,
  not under its first 50.
\<close>

theorem user_agent_cut_only_after_leading_slash:
  "CHR ''/'' \<notin> set long_agent
   \<and> length long_agent = 81
   \<and> userAgentKey \<lparr>http_method = ''GET'', query = Map.empty,
        headers = [''user-agent'' \<mapsto> long_agent], remoteAddress = None, body = None\<rparr>
      = long_agent
   \<and> userAgentKey \<lparr>http_method = ''GET'', query = Map.empty,
        headers = [''user-agent'' \<mapsto> long_agent], remoteAddress = None, body = None\<rparr>
      \<noteq> take 50 long_agent
   \<and> clientsByUserAgent (trackRequest \<lparr>http_method = ''GET'', query = Map.empty,
        headers = [''user-agent'' \<mapsto> long_agent], remoteAddress = None, body = None\<rparr>
        ''/health'' ''2026-01-01T10:00:00.000Z'' (analytics0 ''t0'')) long_agent
      = Some (Count 1)
   \<and> userAgentKey \<lparr>http_method = ''GET'', query = Map.empty,
        headers = [''user-agent'' \<mapsto> ''/1.0''], remoteAddress = None, body = None\<rparr>
      = ''/1.0''"
  by (simp add: userAgentKey_def shortUserAgent_def split_first_def js_or_def long_agent_def
      trackRequest_def analytics0_def incr_def or_zero_plus_one_def inherited_text_def)

text \<open>
  C7, amended. Line 80 applies its assignment to \<^verbatim>\<open>clientsByUserAgent\<close> at the key of the
  request. The key is computed from the user-agent header, or from \<^verbatim>\<open>unknown\<close> when the
  header is absent or empty: it is the part before the first \<^verbatim>\<open>/\<close> when that part is not
  empty, the first 50 characters when the string starts with \<^verbatim>\<open>/\<close>, and, when the string
  has no \<^verbatim>\<open>/\<close> and at most 50 characters, the string itself, which is its first 50
  characters.
\<close>

theorem user_agent_key:
  "clientsByUserAgent (trackRequest req endpoint now a)
     = incr (clientsByUserAgent a) (userAgentKey req)
   \<and> userAgentKey req = shortUserAgent (js_or (headers req ''user-agent'') ''unknown'')
   \<and> (CHR ''/'' \<notin> set pre \<and> pre \<noteq> [] \<longrightarrow> shortUserAgent (pre @ CHR ''/'' # post) = pre)
   \<and> shortUserAgent (CHR ''/'' # post) = take 50 (CHR ''/'' # post)
   \<and> (CHR ''/'' \<notin> set ua \<and> length ua \<le> 50 \<longrightarrow>
        shortUserAgent ua = ua \<and> shortUserAgent ua = take 50 ua)"
proof -
  have "shortUserAgent ua = ua \<and> shortUserAgent ua = take 50 ua"
    if "CHR ''/'' \<notin> set ua" "length ua \<le> 50"
    using that by (simp add: shortUserAgent_no_slash)
  then show ?thesis
    using trackRequest_user_agent [of req endpoint now a] userAgentKey_def [of req]
      shortUserAgent_product [of pre post] shortUserAgent_leading_slash [of post]
    by blast
qed

text \<open>The sample request has the user agent \<^verbatim>\<open>curl/8.5.0\<close>.\<close>

theorem user_agent_key_witness:
  "userAgentKey (sample_request None None None) = ''curl''
   \<and> clientsByUserAgent (trackRequest (sample_request None None None) ''/health''
        ''2026-01-01T10:00:00.000Z'' (analytics0 ''t0'')) ''curl'' = Some (Count 1)
   \<and> CHR ''/'' \<notin> set ''curl'' \<and> ''curl'' \<noteq> []
   \<and> shortUserAgent (''curl'' @ CHR ''/'' # ''8.5.0'') = ''curl''
   \<and> shortUserAgent ''/1.0'' = ''/1.0''
   \<and> CHR ''/'' \<notin> set ''unknown'' \<and> length ''unknown'' \<le> 50
   \<and> shortUserAgent ''unknown'' = ''unknown''"
  using user_agent_key [of "sample_request None None None" "''/health''"
      "''2026-01-01T10:00:00.000Z''" "analytics0 ''t0''" "''curl''" "''8.5.0''" "''unknown''"]
  by (simp add: sample_defs userAgentKey_def shortUserAgent_def split_first_def
      incr_def or_zero_plus_one_def inherited_text_def)

subsection \<open>Tool calls are recorded before they are forwarded\<close>

lemma trackToolCall_counts:
  "totalToolCalls (trackToolCall n ip now a) = totalToolCalls a + 1"
  "toolCalls (trackToolCall n ip now a) = incr (toolCalls a) n"
  "hd (recentToolCalls (trackToolCall n ip now a)) = \<lparr>tool = n, timestamp = now, clientIp = ip\<rparr>"
  by (auto simp: trackToolCall_def Let_def)

lemma toolCallName_named:
  assumes "body req = Some b" and "body_method b = Some ''tools/call''"
    and "body_params b = Some p"
  shows "params_name p = Some n \<Longrightarrow> n \<noteq> [] \<Longrightarrow> toolCallName req = Some n"
    and "params_name p = Some [] \<Longrightarrow> toolCallName req = None"
  using assms by (simp_all add: toolCallName_def truthy_def)

lemma handler_not_a_tool_call:
  assumes "resolveToken env req \<noteq> []" and "toolCallName req = None"
  shows "analytics (state (mcp_handler env w req s))
      = trackRequest req ''/mcp'' (clock_request w) (analytics s)"
    and "filter is_tool_call_step (trace (mcp_handler env w req s)) = []"
proof -
  let ?s = "s\<lparr>analytics := tracked w req (analytics s)\<rparr>"
  show "analytics (state (mcp_handler env w req s))
      = trackRequest req ''/mcp'' (clock_request w) (analytics s)"
    using getOrCreate_analytics [of w "resolveToken env req" ?s] assms(2)
    by (simp add: handler_state [OF assms(1)] tracked_def)
  show "filter is_tool_call_step (trace (mcp_handler env w req s)) = []"
    using assms(2)
    by (cases rule: getOrCreate_cases [of ?s "resolveToken env req" w])
       (simp_all add: handler_accept [OF assms(1)])
qed

text \<open>
  C8, as the claim states it, fails for a name that is present and empty: the request
  \<^verbatim>\<open>{"method": "tools/call", "params": {"name": ""}}\<close> with token \<open>a\<close> is forwarded to a
  session without a call of \<^verbatim>\<open>trackToolCall\<close>, and the counters and the list stay empty.
  It also fails for the name \<^verbatim>\<open>__proto__\<close>: the call is recorded in the total and in the
  list, but line 89 stores nothing in \<^verbatim>\<open>toolCalls\<close>.
\<close>

theorem tool_call_with_empty_name_not_recorded:
  "resolveToken None (sample_request (Some ''a'') None (Some unnamed_call)) = ''a''
   \<and> body_method unnamed_call = Some ''tools/call''
   \<and> map_option params_name (body_params unnamed_call) = Some (Some [])
   \<and> trace (mcp_handler None (sample_world False False False)
        (sample_request (Some ''a'') None (Some unnamed_call)) (server0 ''t0''))
      = [TrackRequest, NewTransport 0, CreateMcpServer ''a'', Connect 0, CacheSet ''a'' 0,
         HandleRequest 0]
   \<and> totalToolCalls (analytics (state (mcp_handler None (sample_world False False False)
        (sample_request (Some ''a'') None (Some unnamed_call)) (server0 ''t0'')))) = 0
   \<and> recentToolCalls (analytics (state (mcp_handler None (sample_world False False False)
        (sample_request (Some ''a'') None (Some unnamed_call)) (server0 ''t0'')))) = []
   \<and> map_option params_name (body_params proto_call) = Some (Some ''__proto__'')
   \<and> totalToolCalls (analytics (state (mcp_handler None (sample_world False False False)
        (sample_request (Some ''a'') None (Some proto_call)) (server0 ''t0'')))) = 1
   \<and> toolCalls (analytics (state (mcp_handler None (sample_world False False False)
        (sample_request (Some ''a'') None (Some proto_call)) (server0 ''t0'')))) ''__proto__''
      = None"
  by (simp add: sample_defs unnamed_call_def proto_call_def trackRequest_def trackToolCall_def
      incr_def)

text \<open>
  C8, amended. Take a request whose token resolves and whose method is \<^verbatim>\<open>tools/call\<close>.
  When its tool name is a non-empty string, \<^verbatim>\<open>trackToolCall\<close> is called with the name and
  the client address right after \<^verbatim>\<open>trackRequest\<close> and before anything else, so before the
  request is forwarded; whatever \<^verbatim>\<open>connect\<close> and \<^verbatim>\<open>handleRequest\<close> do, the analytics
  afterwards are those of the two recorders: the total is one higher, the entry is at the
  head of the list, and the count of the tool goes from a number to the next, and from
  absent to 1 when the name is not the name of a member inherited from
  \<^verbatim>\<open>Object.prototype\<close>. When its tool name is the empty string, \<^verbatim>\<open>trackToolCall\<close> is not
  called and the analytics afterwards are those of \<^verbatim>\<open>trackRequest\<close> alone.
\<close>

theorem tool_call_recorded_before_forwarding:
  assumes "resolveToken env req \<noteq> []"
    and "body req = Some b"
    and "body_method b = Some ''tools/call''"
    and "body_params b = Some p"
  shows "(params_name p = Some n \<and> n \<noteq> [] \<longrightarrow>
      take 2 (trace (mcp_handler env w req s))
        = [TrackRequest, TrackToolCall n (getClientIp req)]
      \<and> (forwarded (mcp_handler env w req s) = Some t \<longrightarrow>
           HandleRequest t \<in> set (drop 2 (trace (mcp_handler env w req s))))
      \<and> analytics (state (mcp_handler env w req s))
          = trackToolCall n (getClientIp req) (clock_tool w)
              (trackRequest req ''/mcp'' (clock_request w) (analytics s))
      \<and> totalToolCalls (analytics (state (mcp_handler env w req s)))
          = totalToolCalls (analytics s) + 1
      \<and> hd (recentToolCalls (analytics (state (mcp_handler env w req s))))
          = \<lparr>tool = n, timestamp = clock_tool w, clientIp = getClientIp req\<rparr>
      \<and> (toolCalls (analytics s) n = Some (Count c) \<longrightarrow>
           toolCalls (analytics (state (mcp_handler env w req s))) n = Some (Count (c + 1)))
      \<and> (toolCalls (analytics s) n = None \<and> inherited_text n = None \<longrightarrow>
           toolCalls (analytics (state (mcp_handler env w req s))) n = Some (Count 1)))
    \<and> (params_name p = Some [] \<longrightarrow>
      analytics (state (mcp_handler env w req s))
        = trackRequest req ''/mcp'' (clock_request w) (analytics s)
      \<and> filter is_tool_call_step (trace (mcp_handler env w req s)) = [])"
proof -
  have named: "take 2 (trace (mcp_handler env w req s))
        = [TrackRequest, TrackToolCall n (getClientIp req)]
      \<and> (forwarded (mcp_handler env w req s) = Some t \<longrightarrow>
           HandleRequest t \<in> set (drop 2 (trace (mcp_handler env w req s))))
      \<and> analytics (state (mcp_handler env w req s))
          = trackToolCall n (getClientIp req) (clock_tool w)
              (trackRequest req ''/mcp'' (clock_request w) (analytics s))
      \<and> totalToolCalls (analytics (state (mcp_handler env w req s)))
          = totalToolCalls (analytics s) + 1
      \<and> hd (recentToolCalls (analytics (state (mcp_handler env w req s))))
          = \<lparr>tool = n, timestamp = clock_tool w, clientIp = getClientIp req\<rparr>
      \<and> (toolCalls (analytics s) n = Some (Count c) \<longrightarrow>
           toolCalls (analytics (state (mcp_handler env w req s))) n = Some (Count (c + 1)))
      \<and> (toolCalls (analytics s) n = None \<and> inherited_text n = None \<longrightarrow>
           toolCalls (analytics (state (mcp_handler env w req s))) n = Some (Count 1))"
    if nm: "params_name p = Some n" "n \<noteq> []"
  proof -
    have tc: "toolCallName req = Some n"
      using toolCallName_named(1) [OF assms(2-4) nm] .
    then have tr: "tracked w req (analytics s)
        = trackToolCall n (getClientIp req) (clock_tool w)
            (trackRequest req ''/mcp'' (clock_request w) (analytics s))"
      by (simp add: tracked_def)
    let ?s = "s\<lparr>analytics := tracked w req (analytics s)\<rparr>"
    have a: "analytics (state (mcp_handler env w req s))
        = trackToolCall n (getClientIp req) (clock_tool w)
            (trackRequest req ''/mcp'' (clock_request w) (analytics s))"
      using getOrCreate_analytics [of w "resolveToken env req" ?s]
      by (simp add: handler_state [OF assms(1)] tr)
    have c: "totalToolCalls (trackRequest req ''/mcp'' (clock_request w) (analytics s))
          = totalToolCalls (analytics s)"
        "toolCalls (trackRequest req ''/mcp'' (clock_request w) (analytics s))
          = toolCalls (analytics s)"
      by (simp_all add: trackRequest_def)
    obtain tr' s' ev where g: "getOrCreate w (resolveToken env req) ?s = (tr', s', ev)"
      by (cases "getOrCreate w (resolveToken env req) ?s") auto
    have t: "take 2 (trace (mcp_handler env w req s))
        = [TrackRequest, TrackToolCall n (getClientIp req)]"
      by (simp add: handler_accept [OF assms(1)] g tc Let_def split: option.splits)
    have f: "forwarded (mcp_handler env w req s) = Some t \<longrightarrow>
           HandleRequest t \<in> set (drop 2 (trace (mcp_handler env w req s)))"
      by (simp add: handler_accept [OF assms(1)] g tc Let_def split: option.splits)
    have k1: "toolCalls (analytics (state (mcp_handler env w req s))) n = Some (Count (c + 1))"
      if "toolCalls (analytics s) n = Some (Count c)"
      using that by (simp add: a trackToolCall_counts c incr_count)
    have k2: "toolCalls (analytics (state (mcp_handler env w req s))) n = Some (Count 1)"
      if "toolCalls (analytics s) n = None" "inherited_text n = None"
      using that by (simp add: a trackToolCall_counts c incr_absent)
    show ?thesis
      using t f k1 k2 by (simp add: a trackToolCall_counts(1,3) c)
  qed
  have unnamed: "analytics (state (mcp_handler env w req s))
        = trackRequest req ''/mcp'' (clock_request w) (analytics s)
      \<and> filter is_tool_call_step (trace (mcp_handler env w req s)) = []"
    if "params_name p = Some []"
    using handler_not_a_tool_call [OF assms(1) toolCallName_named(2) [OF assms(2-4) that]]
    by simp
  show ?thesis
    using named unnamed by blast
qed

text \<open>The call is recorded when \<^verbatim>\<open>handleRequest\<close> throws, and when \<^verbatim>\<open>connect\<close> throws;
  with an empty name nothing is recorded.\<close>

theorem tool_call_recorded_before_forwarding_witness:
  "resolveToken None (sample_request (Some ''a'') None (Some hello_call)) \<noteq> []
   \<and> body (sample_request (Some ''a'') None (Some hello_call)) = Some hello_call
   \<and> body_method hello_call = Some ''tools/call''
   \<and> body_params hello_call = Some \<lparr>params_name = Some ''hello''\<rparr>
   \<and> forwarded (mcp_handler None (sample_world False True False)
        (sample_request (Some ''a'') None (Some hello_call)) (server0 ''t0'')) = Some 0
   \<and> trace (mcp_handler None (sample_world False True False)
        (sample_request (Some ''a'') None (Some hello_call)) (server0 ''t0''))
      = [TrackRequest, TrackToolCall ''hello'' ''10.0.0.1'', NewTransport 0,
         CreateMcpServer ''a'', Connect 0, CacheSet ''a'' 0, HandleRequest 0, LogError, Respond 500]
   \<and> totalToolCalls (analytics (state (mcp_handler None (sample_world False True False)
        (sample_request (Some ''a'') None (Some hello_call)) (server0 ''t0'')))) = 1
   \<and> map tool (recentToolCalls (analytics (state (mcp_handler None (sample_world True False False)
        (sample_request (Some ''a'') None (Some hello_call)) (server0 ''t0''))))) = [''hello'']
   \<and> toolCalls (analytics (server0 ''t0'')) ''hello'' = None
   \<and> inherited_text ''hello'' = None
   \<and> toolCalls (analytics (state (mcp_handler None (sample_world False True False)
        (sample_request (Some ''a'') None (Some hello_call)) (server0 ''t0'')))) ''hello''
      = Some (Count 1)
   \<and> toolCalls (analytics (state (mcp_handler None (sample_world False False False)
        (sample_request (Some ''a'') None (Some hello_call))
        (state (mcp_handler None (sample_world False True False)
          (sample_request (Some ''a'') None (Some hello_call)) (server0 ''t0'')))))) ''hello''
      = Some (Count 2)
   \<and> body_params unnamed_call = Some \<lparr>params_name = Some []\<rparr>
   \<and> totalToolCalls (analytics (state (mcp_handler None (sample_world False False False)
        (sample_request (Some ''a'') None (Some unnamed_call)) (server0 ''t0'')))) = 0"
  using
    tool_call_recorded_before_forwarding [of None
      "sample_request (Some ''a'') None (Some hello_call)" hello_call
      "\<lparr>params_name = Some ''hello''\<rparr>" "''hello''" "sample_world False True False"
      "server0 ''t0''" 0 0]
    tool_call_recorded_before_forwarding [of None
      "sample_request (Some ''a'') None (Some hello_call)" hello_call
      "\<lparr>params_name = Some ''hello''\<rparr>" "''hello''" "sample_world True False False"
      "server0 ''t0''" 0 0]
    tool_call_recorded_before_forwarding [of None
      "sample_request (Some ''a'') None (Some hello_call)" hello_call
      "\<lparr>params_name = Some ''hello''\<rparr>" "''hello''" "sample_world False False False"
      "state (mcp_handler None (sample_world False True False)
          (sample_request (Some ''a'') None (Some hello_call)) (server0 ''t0''))" 0 1]
    tool_call_recorded_before_forwarding [of None
      "sample_request (Some ''a'') None (Some unnamed_call)" unnamed_call
      "\<lparr>params_name = Some []\<rparr>" _ "sample_world False False False" "server0 ''t0''"]
  by (simp add: sample_defs hello_call_def unnamed_call_def getClientIp_def trackToolCall_def
      trackRequest_def incr_def or_zero_plus_one_def inherited_text_def)

end
